theory Spec2Isabelle
  imports Main "HOL-Library.Word" "HOL-Library.Sublist" "HOL-Library.Multiset"
begin

section \<open>The livecomment, moderation and report handlers of isupipe\<close>

text \<open>
  The handlers of \<^verbatim>\<open>src/go/user_handler.go\<close> are Go functions that talk to a MySQL
  store through SQL text. They are embedded as functions over an explicit store: a record
  of tables, each table a list of rows in storage order. Every SQL statement of the source
  becomes a function on these lists; every \<^verbatim>\<open>echo.NewHTTPError\<close> becomes an \<open>Inl\<close>
  value. A handler returns its response together with the store it leaves behind: the
  store it was given when it leaves through an error (the deferred \<^verbatim>\<open>tx.Rollback()\<close>),
  the updated one after \<^verbatim>\<open>tx.Commit()\<close>.

  Inputs that the source reads from its environment are parameters: the clock
  (\<^verbatim>\<open>time.Now().Unix()\<close>), the session, the bytes of the fallback image file, the digest
  function \<^verbatim>\<open>sha256.Sum256\<close>, and the collation under which the store compares
  characters in \<^verbatim>\<open>LIKE\<close>. Failures of the connection itself (begin, commit, a lost
  server) are not modelled, and an \<^verbatim>\<open>INSERT\<close> is taken to succeed. The
  \<^verbatim>\<open>AUTO_INCREMENT\<close> counters are fields of the store, so a handler that rolls back
  returns them as they were.
\<close>

subsection \<open>Rows and response types\<close>

type_synonym bytes = "8 word list"

record UserModel =
  um_ID :: int
  um_Name :: string
  um_DisplayName :: string
  um_Description :: string
  um_HashedPassword :: string

record Theme =
  th_ID :: int
  th_DarkMode :: bool

record User =
  u_ID :: int
  u_Name :: string
  u_DisplayName :: string
  u_Description :: string
  u_Theme :: Theme
  u_IconHash :: string

record ThemeModel =
  tm_ID :: int
  tm_UserID :: int
  tm_DarkMode :: bool

text \<open>A row of table \<^verbatim>\<open>icons\<close>, as the queries use it (\<^verbatim>\<open>user_id\<close>, \<^verbatim>\<open>image\<close>).\<close>

record IconModel =
  ic_ID :: int
  ic_UserID :: int
  ic_Image :: bytes

text \<open>
  \<^verbatim>\<open>LivestreamModel\<close> and \<^verbatim>\<open>Livestream\<close> are declared outside the given sources; the
  fields are the ones the handlers and their joins read and write.
\<close>

record LivestreamModel =
  lsm_ID :: int
  lsm_UserID :: int
  lsm_Title :: string
  lsm_Description :: string
  lsm_PlaylistUrl :: string
  lsm_ThumbnailUrl :: string
  lsm_StartAt :: int
  lsm_EndAt :: int

record Livestream =
  ls_ID :: int
  ls_Owner :: User
  ls_Title :: string
  ls_Description :: string
  ls_PlaylistUrl :: string
  ls_ThumbnailUrl :: string
  ls_StartAt :: int
  ls_EndAt :: int


record LivecommentModel =
  lcm_ID :: int
  lcm_UserID :: int
  lcm_LivestreamID :: int
  lcm_Comment :: string
  lcm_Tip :: int
  lcm_CreatedAt :: int

record Livecomment =
  lc_ID :: int
  lc_User :: User
  lc_Livestream :: Livestream
  lc_Comment :: string
  lc_Tip :: int
  lc_CreatedAt :: int

record LivecommentReport =
  lr_ID :: int
  lr_Reporter :: User
  lr_Livecomment :: Livecomment
  lr_CreatedAt :: int

record LivecommentReportModel =
  lrm_ID :: int
  lrm_UserID :: int
  lrm_LivestreamID :: int
  lrm_LivecommentID :: int
  lrm_CreatedAt :: int

record ModerateRequest =
  mr_NGWord :: string

record NGWord =
  ng_ID :: int
  ng_UserID :: int
  ng_LivestreamID :: int
  ng_Word :: string
  ng_CreatedAt :: int

subsection \<open>The spam match: \<^verbatim>\<open>text LIKE CONCAT('%', word, '%')\<close>\<close>

text \<open>
  Both the submission check and the purge decide a match with the same SQL expression,
  \<^verbatim>\<open>texts.text LIKE patterns.pattern\<close> where the pattern is
  \<^verbatim>\<open>CONCAT('%', ?, '%')\<close> and the second placeholder is the NG word. \<open>LIKE\<close> is the
  store's pattern match: in the pattern \<^verbatim>\<open>%\<close> stands for any run of characters,
  \<^verbatim>\<open>_\<close> for exactly one character, a backslash makes the character after it literal
  (a backslash that ends the pattern stands for itself), and every other character must
  be equal, under the collation \<open>coll\<close>, to the character of the text.
\<close>

definition percent :: char where "percent = CHR ''%''"
definition underscore :: char where "underscore = CHR ''_''"
definition backslash :: char where "backslash = CHR 0x5C"

fun like :: "(char \<Rightarrow> char \<Rightarrow> bool) \<Rightarrow> string \<Rightarrow> string \<Rightarrow> bool" where
  "like coll t [] = (t = [])"
| "like coll t (p # ps) =
     (if p = percent then
        (like coll t ps \<or> (case t of [] \<Rightarrow> False | c # cs \<Rightarrow> like coll cs (p # ps)))
      else if p = underscore then
        (case t of [] \<Rightarrow> False | c # cs \<Rightarrow> like coll cs ps)
      else if p = backslash then
        (case ps of
           [] \<Rightarrow> (case t of [] \<Rightarrow> False | c # cs \<Rightarrow> coll c p \<and> like coll cs [])
         | q # qs \<Rightarrow> (case t of [] \<Rightarrow> False | c # cs \<Rightarrow> coll c q \<and> like coll cs qs))
      else
        (case t of [] \<Rightarrow> False | c # cs \<Rightarrow> coll c p \<and> like coll cs ps))"

text \<open>\<^verbatim>\<open>CONCAT('%', word, '%')\<close>.\<close>

definition concat_pattern :: "string \<Rightarrow> string" where
  "concat_pattern word = percent # word @ [percent]"

text \<open>
  The query \<^verbatim>\<open>SELECT COUNT(*) FROM (SELECT ? AS text) AS texts INNER JOIN
  (SELECT CONCAT('%', ?, '%') AS pattern) AS patterns ON texts.text LIKE patterns.pattern\<close>:
  a join of two one-row tables, so the count is 1 or 0.
\<close>

definition hitSpam :: "(char \<Rightarrow> char \<Rightarrow> bool) \<Rightarrow> string \<Rightarrow> string \<Rightarrow> int" where
  "hitSpam coll text word = (if like coll text (concat_pattern word) then 1 else 0)"

text \<open>A binary collation compares characters by identity.\<close>

definition binary :: "char \<Rightarrow> char \<Rightarrow> bool" where
  "binary c d = (c = d)"


subsection \<open>Errors, sessions and request parameters\<close>

datatype status =
  StatusBadRequest | StatusUnauthorized | StatusForbidden | StatusNotFound
| StatusInternalServerError

text \<open>One constructor for each message the handlers pass to \<^verbatim>\<open>echo.NewHTTPError\<close>.\<close>

datatype reason =
  FailedToGetSession
| FailedToGetExpires
| FailedToGetUserID
| SessionHasExpired
| LivestreamIDMustBeInteger
| LivecommentIDMustBeInteger
| LimitMustBeInteger
| FailedToDecodeBody
| LivestreamNotFound
| LivecommentNotFound
| CommentJudgedSpam
| CannotModerateOthersLivestream
| FailedToGetLivecomments
| NotFoundLivecommentWithID
| FailedToGetLivecomment
| FailedToFillLivecomment
| NotFoundLivecommentReportWithID
| FailedToGetLivecommentReport
| FailedToFillLivecommentReport

text \<open>
  A handler leaves through an HTTP error or, where it dereferences a nil request or a
  missing session value, through a Go panic.
\<close>

datatype http_error = HTTPError status reason | Panic

text \<open>Errors inside the helpers: \<^verbatim>\<open>sql.ErrNoRows\<close>, any other store error, a failed file read.\<close>

datatype go_error = ErrNoRows | ErrStore | ErrReadFile

text \<open>
  The session as \<^verbatim>\<open>verifyUserSession\<close> reads it: the values stored under
  \<^verbatim>\<open>EXPIRES\<close> and \<^verbatim>\<open>USERID\<close>, each possibly missing. \<open>None\<close> for the whole
  session is a failing \<^verbatim>\<open>session.Get\<close>.
\<close>

record Session =
  sess_Expires :: "int option"
  sess_UserID :: "int option"

definition verifyUserSession :: "int \<Rightarrow> Session option \<Rightarrow> http_error option" where
  "verifyUserSession now sess =
     (case sess of
        None \<Rightarrow> Some (HTTPError StatusUnauthorized FailedToGetSession)
      | Some s \<Rightarrow>
          (case sess_Expires s of
             None \<Rightarrow> Some (HTTPError StatusForbidden FailedToGetExpires)
           | Some sessionExpires \<Rightarrow>
               (case sess_UserID s of
                  None \<Rightarrow> Some (HTTPError StatusUnauthorized FailedToGetUserID)
                | Some _ \<Rightarrow>
                    if now > sessionExpires
                    then Some (HTTPError StatusUnauthorized SessionHasExpired)
                    else None)))"

text \<open>\<^verbatim>\<open>sess.Values[defaultUserIDKey].(int64)\<close>; \<open>None\<close> is the panic of the assertion.\<close>

definition sessionUserID :: "Session option \<Rightarrow> int option" where
  "sessionUserID sess = (case sess of None \<Rightarrow> None | Some s \<Rightarrow> sess_UserID s)"

text \<open>
  \<^verbatim>\<open>strconv.Atoi\<close>: an optional sign, then at least one decimal digit and nothing else,
  and a value that fits the 64-bit \<^verbatim>\<open>int\<close>.
\<close>

definition is_digit :: "char \<Rightarrow> bool" where
  "is_digit c = (48 \<le> (of_char c :: nat) \<and> (of_char c :: nat) \<le> 57)"

definition digits_value :: "string \<Rightarrow> int" where
  "digits_value ds = foldl (\<lambda>n c. n * 10 + (int (of_char c) - 48)) 0 ds"

definition Atoi :: "string \<Rightarrow> int option" where
  "Atoi s =
     (let neg = (case s of [] \<Rightarrow> False | c # cs \<Rightarrow> c = CHR ''-'');
          ds = (case s of [] \<Rightarrow> [] | c # cs \<Rightarrow> if c = CHR ''-'' \<or> c = CHR ''+'' then cs else s)
      in if ds = [] \<or> \<not> list_all is_digit ds then None
         else let n = (if neg then - digits_value ds else digits_value ds)
              in if - (2 ^ 63) \<le> n \<and> n < 2 ^ 63 then Some n else None)"

text \<open>
  The result of \<^verbatim>\<open>json.NewDecoder(...).Decode(&req)\<close> into a pointer: an error, a nil
  pointer (the body \<^verbatim>\<open>null\<close>), or a request.
\<close>

datatype 'a decoded = DecodeError | DecodedNil | Decoded 'a

subsection \<open>The store\<close>

text \<open>
  The tables the handlers touch, and for the three tables they insert into the next
  \<^verbatim>\<open>AUTO_INCREMENT\<close> value, which is what \<^verbatim>\<open>LastInsertId\<close> reports.
\<close>

record store =
  users :: "UserModel list"
  themes :: "ThemeModel list"
  icons :: "IconModel list"
  livestreams :: "LivestreamModel list"
  livecomments :: "LivecommentModel list"
  ng_words :: "NGWord list"
  livecomment_reports :: "LivecommentReportModel list"
  livecomments_auto :: int
  ng_words_auto :: int
  livecomment_reports_auto :: int

text \<open>
  \<^verbatim>\<open>GetContext\<close> reads the first row of a result and reports \<^verbatim>\<open>sql.ErrNoRows\<close> on an
  empty one; \<^verbatim>\<open>SelectContext\<close> reads all rows and accepts an empty result.
\<close>

definition get_row :: "('a \<Rightarrow> bool) \<Rightarrow> 'a list \<Rightarrow> go_error + 'a" where
  "get_row P rows = (case find P rows of None \<Rightarrow> Inl ErrNoRows | Some r \<Rightarrow> Inr r)"

definition select_rows :: "('a \<Rightarrow> bool) \<Rightarrow> 'a list \<Rightarrow> 'a list" where
  "select_rows P rows = filter P rows"

text \<open>
  A column of a \<^verbatim>\<open>LEFT JOIN\<close> whose row is missing is \<^verbatim>\<open>NULL\<close>, and scanning
  \<^verbatim>\<open>NULL\<close> into a field of type \<^verbatim>\<open>int64\<close>, \<^verbatim>\<open>string\<close> or \<^verbatim>\<open>bool\<close> is an error of
  the scan.
\<close>

definition left_join :: "('a \<Rightarrow> bool) \<Rightarrow> 'a list \<Rightarrow> go_error + 'a" where
  "left_join P rows = (case find P rows of None \<Rightarrow> Inl ErrStore | Some r \<Rightarrow> Inr r)"

text \<open>\<^verbatim>\<open>COALESCE(i.image, '')\<close> over the left join with \<^verbatim>\<open>icons\<close>.\<close>

definition coalesce_image :: "int \<Rightarrow> IconModel list \<Rightarrow> bytes" where
  "coalesce_image userID rows =
     (case find (\<lambda>i. ic_UserID i = userID) rows of None \<Rightarrow> [] | Some i \<Rightarrow> ic_Image i)"

text \<open>
  \<^verbatim>\<open>GetContext\<close> into a struct maps every column of the result to the field with
  that \<^verbatim>\<open>db\<close> tag before it reads a row, and fails with "missing destination name"
  when a column has no field. \<open>columns\<close> are the names the statement selects, \<open>tags\<close>
  the tags of the struct's fields.
\<close>

definition missing_destination :: "string list \<Rightarrow> string list \<Rightarrow> bool" where
  "missing_destination columns tags = list_ex (\<lambda>c. c \<notin> set tags) columns"

subsection \<open>Resolving a user's profile\<close>

text \<open>\<^verbatim>\<open>fmt.Sprintf("%x", iconHash)\<close>: two lower-case hexadecimal digits for each byte.\<close>

definition hex_digit :: "nat \<Rightarrow> char" where
  "hex_digit n = (if n < 10 then char_of (48 + n) else char_of (87 + n))"

definition hex_byte :: "8 word \<Rightarrow> string" where
  "hex_byte b = [hex_digit (unat b div 16), hex_digit (unat b mod 16)]"

definition sprintf_x :: "bytes \<Rightarrow> string" where
  "sprintf_x bs = concat (map hex_byte bs)"

text \<open>
  \<^verbatim>\<open>os.ReadFile(fallbackImage)\<close>: the parameter \<open>fallback\<close> holds the bytes of the file,
  \<open>None\<close> when it cannot be read.
\<close>

definition readFallback :: "bytes option \<Rightarrow> go_error + bytes" where
  "readFallback fallback = (case fallback of None \<Rightarrow> Inl ErrReadFile | Some bs \<Rightarrow> Inr bs)"

text \<open>
  \<^verbatim>\<open>fillUserResponse\<close>: the theme and the icon are read by two queries; the fallback
  image is read when the icon query has no row.
\<close>

definition fillUserResponse ::
  "(bytes \<Rightarrow> bytes) \<Rightarrow> bytes option \<Rightarrow> store \<Rightarrow> UserModel \<Rightarrow> go_error + User" where
  "fillUserResponse sha256 fallback st userModel =
     (case get_row (\<lambda>t. tm_UserID t = um_ID userModel) (themes st) of
        Inl err \<Rightarrow> Inl err
      | Inr themeModel \<Rightarrow>
          (case (case get_row (\<lambda>i. ic_UserID i = um_ID userModel) (icons st) of
                   Inl err \<Rightarrow> (if err \<noteq> ErrNoRows then Inl err else readFallback fallback)
                 | Inr i \<Rightarrow> Inr (ic_Image i)) of
             Inl err \<Rightarrow> Inl err
           | Inr img \<Rightarrow>
               Inr \<lparr>u_ID = um_ID userModel,
                    u_Name = um_Name userModel,
                    u_DisplayName = um_DisplayName userModel,
                    u_Description = um_Description userModel,
                    u_Theme = \<lparr>th_ID = tm_ID themeModel, th_DarkMode = tm_DarkMode themeModel\<rparr>,
                    u_IconHash = sprintf_x (sha256 img)\<rparr>))"

text \<open>
  \<^verbatim>\<open>fetchUserDetailsByName\<close>: one query joins user, theme and icon; the fallback image
  is read when the image has length 0.
\<close>

definition fetchUserDetailsByName ::
  "(bytes \<Rightarrow> bytes) \<Rightarrow> bytes option \<Rightarrow> store \<Rightarrow> string \<Rightarrow> go_error + User" where
  "fetchUserDetailsByName sha256 fallback st username =
     (case get_row (\<lambda>u. um_Name u = username) (users st) of
        Inl err \<Rightarrow> Inl err
      | Inr u \<Rightarrow>
          (case left_join (\<lambda>t. tm_UserID t = um_ID u) (themes st) of
             Inl err \<Rightarrow> Inl err
           | Inr t \<Rightarrow>
               (case (let img = coalesce_image (um_ID u) (icons st)
                      in if length img = 0 then readFallback fallback else Inr img) of
                  Inl err \<Rightarrow> Inl err
                | Inr img \<Rightarrow>
                    Inr \<lparr>u_ID = um_ID u,
                         u_Name = um_Name u,
                         u_DisplayName = um_DisplayName u,
                         u_Description = um_Description u,
                         u_Theme = \<lparr>th_ID = tm_ID t, th_DarkMode = tm_DarkMode t\<rparr>,
                         u_IconHash = sprintf_x (sha256 img)\<rparr>)))"

text \<open>
  \<^verbatim>\<open>fillUserResponseForRegisterHandler\<close>: one query joins theme and icon; the fallback
  image is read only when that query has no row, and the theme is then the zero value.
\<close>

definition fillUserResponseForRegisterHandler ::
  "(bytes \<Rightarrow> bytes) \<Rightarrow> bytes option \<Rightarrow> store \<Rightarrow> UserModel \<Rightarrow> go_error + User" where
  "fillUserResponseForRegisterHandler sha256 fallback st userModel =
     (case (case get_row (\<lambda>t. tm_UserID t = um_ID userModel) (themes st) of
              Inl err \<Rightarrow>
                (if err \<noteq> ErrNoRows then Inl err
                 else (case readFallback fallback of
                         Inl err \<Rightarrow> Inl err
                       | Inr img \<Rightarrow> Inr (\<lparr>th_ID = 0, th_DarkMode = False\<rparr>, img)))
            | Inr t \<Rightarrow>
                Inr (\<lparr>th_ID = tm_ID t, th_DarkMode = tm_DarkMode t\<rparr>,
                     coalesce_image (um_ID userModel) (icons st))) of
        Inl err \<Rightarrow> Inl err
      | Inr (theme, img) \<Rightarrow>
          Inr \<lparr>u_ID = um_ID userModel,
               u_Name = um_Name userModel,
               u_DisplayName = um_DisplayName userModel,
               u_Description = um_Description userModel,
               u_Theme = theme,
               u_IconHash = sprintf_x (sha256 img)\<rparr>)"

subsection \<open>A comment with its context\<close>

record LivecommentResponse =
  lcr_LivecommentID :: int
  lcr_LivecommentUserID :: int
  lcr_Comment :: string
  lcr_Tip :: int
  lcr_LivecommentCreatedAt :: int
  lcr_UserID :: int
  lcr_Username :: string
  lcr_DisplayName :: string
  lcr_UserDescription :: string
  lcr_ThemeID :: int
  lcr_DarkMode :: bool
  lcr_UserImage :: bytes
  lcr_LivestreamID :: int
  lcr_LivestreamTitle :: string
  lcr_LivestreamDescription :: string
  lcr_PlaylistURL :: string
  lcr_ThumbnailURL :: string
  lcr_StartAt :: int
  lcr_EndAt :: int

text \<open>The \<^verbatim>\<open>db\<close> tags of \<^verbatim>\<open>LivecommentResponse\<close>.\<close>

definition LivecommentResponse_fields :: "string list" where
  "LivecommentResponse_fields =
     [''livecomment_id'', ''lc_user_id'', ''comment'', ''tip'', ''created_at'',
      ''user_id'', ''username'', ''display_name'', ''user_description'',
      ''theme_id'', ''dark_mode'', ''user_image'',
      ''livestream_id'', ''livestream_title'', ''livestream_description'',
      ''playlist_url'', ''thumbnail_url'', ''start_at'', ''end_at'']"

text \<open>The columns that the statement of \<^verbatim>\<open>getLivecommentData\<close> selects, in its order.\<close>

definition getLivecommentData_columns :: "string list" where
  "getLivecommentData_columns =
     [''livecomment_id'', ''lc_user_id'', ''livestream_id'', ''comment'', ''tip'',
      ''created_at'',
      ''user_id'', ''username'', ''display_name'', ''user_description'',
      ''theme_id'', ''dark_mode'',
      ''user_image'',
      ''livestream_id'', ''livestream_title'', ''livestream_description'',
      ''playlist_url'', ''thumbnail_url'', ''start_at'', ''end_at'',
      ''tag_id'', ''tag_name'']"

text \<open>
  \<^verbatim>\<open>getLivecommentData\<close>: the comment with the given id, left-joined with its author,
  the author's theme and icon, and its stream, read by \<^verbatim>\<open>GetContext\<close> into a
  \<^verbatim>\<open>LivecommentResponse\<close>. The statement also selects \<^verbatim>\<open>tag_id\<close> and
  \<^verbatim>\<open>tag_name\<close> from its joins with the tag tables, and the struct has no field for
  them, so the scan fails before any row is read. The join below is what the scan would
  yield otherwise: \<^verbatim>\<open>GetContext\<close> keeps one row, and the keys the joins go through
  (\<^verbatim>\<open>users.id\<close>, \<^verbatim>\<open>themes.user_id\<close>, \<^verbatim>\<open>icons.user_id\<close>, \<^verbatim>\<open>livestreams.id\<close>)
  are taken to identify at most one row.
\<close>

definition getLivecommentData :: "store \<Rightarrow> int \<Rightarrow> go_error + LivecommentResponse" where
  "getLivecommentData st livecommentID =
     (if missing_destination getLivecommentData_columns LivecommentResponse_fields
      then Inl ErrStore
      else
     (case get_row (\<lambda>lc. lcm_ID lc = livecommentID) (livecomments st) of
        Inl err \<Rightarrow> Inl err
      | Inr lc \<Rightarrow>
     (case left_join (\<lambda>u. um_ID u = lcm_UserID lc) (users st) of
        Inl err \<Rightarrow> Inl err
      | Inr u \<Rightarrow>
     (case left_join (\<lambda>t. tm_UserID t = um_ID u) (themes st) of
        Inl err \<Rightarrow> Inl err
      | Inr t \<Rightarrow>
     (case left_join (\<lambda>ls. lsm_ID ls = lcm_LivestreamID lc) (livestreams st) of
        Inl err \<Rightarrow> Inl err
      | Inr ls \<Rightarrow>
          Inr \<lparr>lcr_LivecommentID = lcm_ID lc,
               lcr_LivecommentUserID = lcm_UserID lc,
               lcr_Comment = lcm_Comment lc,
               lcr_Tip = lcm_Tip lc,
               lcr_LivecommentCreatedAt = lcm_CreatedAt lc,
               lcr_UserID = um_ID u,
               lcr_Username = um_Name u,
               lcr_DisplayName = um_DisplayName u,
               lcr_UserDescription = um_Description u,
               lcr_ThemeID = tm_ID t,
               lcr_DarkMode = tm_DarkMode t,
               lcr_UserImage = coalesce_image (um_ID u) (icons st),
               lcr_LivestreamID = lsm_ID ls,
               lcr_LivestreamTitle = lsm_Title ls,
               lcr_LivestreamDescription = lsm_Description ls,
               lcr_PlaylistURL = lsm_PlaylistUrl ls,
               lcr_ThumbnailURL = lsm_ThumbnailUrl ls,
               lcr_StartAt = lsm_StartAt ls,
               lcr_EndAt = lsm_EndAt ls\<rparr>)))))"

definition fillLivecommentResponse ::
  "(bytes \<Rightarrow> bytes) \<Rightarrow> bytes option \<Rightarrow> LivecommentResponse \<Rightarrow> go_error + Livecomment" where
  "fillLivecommentResponse sha256 fallback livecommentResponse =
     (case (let img = lcr_UserImage livecommentResponse
            in if length img = 0 then readFallback fallback else Inr img) of
        Inl err \<Rightarrow> Inl err
      | Inr img \<Rightarrow>
          (let commentOwner =
                 \<lparr>u_ID = lcr_UserID livecommentResponse,
                  u_Name = lcr_Username livecommentResponse,
                  u_DisplayName = lcr_DisplayName livecommentResponse,
                  u_Description = lcr_UserDescription livecommentResponse,
                  u_Theme = \<lparr>th_ID = lcr_ThemeID livecommentResponse,
                             th_DarkMode = lcr_DarkMode livecommentResponse\<rparr>,
                  u_IconHash = sprintf_x (sha256 img)\<rparr>;
               livestream =
                 \<lparr>ls_ID = lcr_LivestreamID livecommentResponse,
                  ls_Owner = commentOwner,
                  ls_Title = lcr_LivestreamTitle livecommentResponse,
                  ls_Description = lcr_LivestreamDescription livecommentResponse,
                  ls_PlaylistUrl = lcr_PlaylistURL livecommentResponse,
                  ls_ThumbnailUrl = lcr_ThumbnailURL livecommentResponse,
                  ls_StartAt = lcr_StartAt livecommentResponse,
                  ls_EndAt = lcr_EndAt livecommentResponse\<rparr>
           in Inr \<lparr>lc_ID = lcr_LivecommentID livecommentResponse,
                   lc_User = commentOwner,
                   lc_Livestream = livestream,
                   lc_Comment = lcr_Comment livecommentResponse,
                   lc_Tip = lcr_Tip livecommentResponse,
                   lc_CreatedAt = lcr_LivecommentCreatedAt livecommentResponse\<rparr>))"

subsection \<open>A report with its context\<close>

record LivecommentReportResponse =
  lrr_ReportID :: int
  lrr_ReporterUserID :: int
  lrr_ReportCreatedAt :: int
  lrr_ReporterID :: int
  lrr_ReporterName :: string
  lrr_ReporterDisplayName :: string
  lrr_ReporterDescription :: string
  lrr_ReporterThemeID :: int
  lrr_ReporterDarkMode :: bool
  lrr_ReporterImage :: bytes
  lrr_LivecommentID :: int
  lrr_LivecommentUserID :: int
  lrr_Comment :: string
  lrr_Tip :: int
  lrr_LivecommentCreatedAt :: int
  lrr_LCUserID :: int
  lrr_LCUsername :: string
  lrr_LCUserDisplayName :: string
  lrr_LCUserDescription :: string
  lrr_LCUserThemeID :: int
  lrr_LCUserDarkMode :: bool
  lrr_LCUserImage :: bytes
  lrr_LivestreamID :: int
  lrr_LivestreamTitle :: string
  lrr_LivestreamDescription :: string
  lrr_PlaylistURL :: string
  lrr_ThumbnailURL :: string
  lrr_StartAt :: int
  lrr_EndAt :: int

text \<open>The \<^verbatim>\<open>db\<close> tags of \<^verbatim>\<open>LivecommentReportResponse\<close>.\<close>

definition LivecommentReportResponse_fields :: "string list" where
  "LivecommentReportResponse_fields =
     [''report_id'', ''reporter_user_id'', ''report_created_at'',
      ''reporter_id'', ''reporter_name'', ''reporter_display_name'',
      ''reporter_description'', ''reporter_theme_id'', ''reporter_dark_mode'',
      ''reporter_image'',
      ''livecomment_id'', ''lc_user_id'', ''comment'', ''tip'', ''livecomment_created_at'',
      ''livecomment_user_id'', ''lc_username'', ''lc_display_name'', ''lc_user_description'',
      ''lc_user_theme_id'', ''lc_user_dark_mode'', ''lc_user_image'',
      ''livestream_id'', ''livestream_title'', ''livestream_description'',
      ''playlist_url'', ''thumbnail_url'', ''start_at'', ''end_at'']"

text \<open>The columns that the statement of \<^verbatim>\<open>getLivecommentReportData\<close> selects.\<close>

definition getLivecommentReportData_columns :: "string list" where
  "getLivecommentReportData_columns =
     [''report_id'', ''reporter_user_id'', ''livecomment_id'', ''report_created_at'',
      ''reporter_id'', ''reporter_name'', ''reporter_display_name'', ''reporter_description'',
      ''reporter_theme_id'', ''reporter_dark_mode'',
      ''reporter_image'',
      ''livecomment_id'', ''lc_user_id'', ''livestream_id'', ''comment'', ''tip'',
      ''livecomment_created_at'',
      ''livecomment_user_id'', ''lc_username'', ''lc_display_name'', ''lc_user_description'',
      ''lc_user_theme_id'', ''lc_user_dark_mode'',
      ''lc_user_image'',
      ''livestream_id'', ''livestream_title'', ''livestream_description'',
      ''playlist_url'', ''thumbnail_url'', ''start_at'', ''end_at'']"

text \<open>
  \<^verbatim>\<open>getLivecommentReportData\<close>: the report with the given id, left-joined with its
  reporter (and the reporter's theme and icon), with the reported comment, the comment's
  author (theme and icon) and the stream \<^emph>\<open>of the comment\<close>
  (\<^verbatim>\<open>livestreams ls ON lc.livestream_id = ls.id\<close>), read by \<^verbatim>\<open>GetContext\<close> into a
  \<^verbatim>\<open>LivecommentReportResponse\<close>, which has a field for every column selected.
\<close>

definition getLivecommentReportData ::
  "store \<Rightarrow> int \<Rightarrow> go_error + LivecommentReportResponse" where
  "getLivecommentReportData st reportID =
     (if missing_destination getLivecommentReportData_columns LivecommentReportResponse_fields
      then Inl ErrStore
      else
     (case get_row (\<lambda>lr. lrm_ID lr = reportID) (livecomment_reports st) of
        Inl err \<Rightarrow> Inl err
      | Inr lr \<Rightarrow>
     (case left_join (\<lambda>u. um_ID u = lrm_UserID lr) (users st) of
        Inl err \<Rightarrow> Inl err
      | Inr ru \<Rightarrow>
     (case left_join (\<lambda>t. tm_UserID t = um_ID ru) (themes st) of
        Inl err \<Rightarrow> Inl err
      | Inr rt \<Rightarrow>
     (case left_join (\<lambda>lc. lcm_ID lc = lrm_LivecommentID lr) (livecomments st) of
        Inl err \<Rightarrow> Inl err
      | Inr lc \<Rightarrow>
     (case left_join (\<lambda>u. um_ID u = lcm_UserID lc) (users st) of
        Inl err \<Rightarrow> Inl err
      | Inr lu \<Rightarrow>
     (case left_join (\<lambda>t. tm_UserID t = um_ID lu) (themes st) of
        Inl err \<Rightarrow> Inl err
      | Inr lt \<Rightarrow>
     (case left_join (\<lambda>ls. lsm_ID ls = lcm_LivestreamID lc) (livestreams st) of
        Inl err \<Rightarrow> Inl err
      | Inr ls \<Rightarrow>
          Inr \<lparr>lrr_ReportID = lrm_ID lr,
               lrr_ReporterUserID = lrm_UserID lr,
               lrr_ReportCreatedAt = lrm_CreatedAt lr,
               lrr_ReporterID = um_ID ru,
               lrr_ReporterName = um_Name ru,
               lrr_ReporterDisplayName = um_DisplayName ru,
               lrr_ReporterDescription = um_Description ru,
               lrr_ReporterThemeID = tm_ID rt,
               lrr_ReporterDarkMode = tm_DarkMode rt,
               lrr_ReporterImage = coalesce_image (um_ID ru) (icons st),
               lrr_LivecommentID = lcm_ID lc,
               lrr_LivecommentUserID = lcm_UserID lc,
               lrr_Comment = lcm_Comment lc,
               lrr_Tip = lcm_Tip lc,
               lrr_LivecommentCreatedAt = lcm_CreatedAt lc,
               lrr_LCUserID = um_ID lu,
               lrr_LCUsername = um_Name lu,
               lrr_LCUserDisplayName = um_DisplayName lu,
               lrr_LCUserDescription = um_Description lu,
               lrr_LCUserThemeID = tm_ID lt,
               lrr_LCUserDarkMode = tm_DarkMode lt,
               lrr_LCUserImage = coalesce_image (um_ID lu) (icons st),
               lrr_LivestreamID = lsm_ID ls,
               lrr_LivestreamTitle = lsm_Title ls,
               lrr_LivestreamDescription = lsm_Description ls,
               lrr_PlaylistURL = lsm_PlaylistUrl ls,
               lrr_ThumbnailURL = lsm_ThumbnailUrl ls,
               lrr_StartAt = lsm_StartAt ls,
               lrr_EndAt = lsm_EndAt ls\<rparr>))))))))"

definition fillLivecommentReportResponse ::
  "(bytes \<Rightarrow> bytes) \<Rightarrow> bytes option \<Rightarrow> LivecommentReportResponse
     \<Rightarrow> go_error + LivecommentReport" where
  "fillLivecommentReportResponse sha256 fallback reportResponse =
     (case (let reporterImage = lrr_ReporterImage reportResponse
            in if length reporterImage = 0 then readFallback fallback
               else Inr reporterImage) of
        Inl err \<Rightarrow> Inl err
      | Inr reporterImage \<Rightarrow>
     (case (let lcUserImage = lrr_LCUserImage reportResponse
            in if length lcUserImage = 0 then readFallback fallback
               else Inr lcUserImage) of
        Inl err \<Rightarrow> Inl err
      | Inr lcUserImage \<Rightarrow>
          (let reporter =
                 \<lparr>u_ID = lrr_ReporterID reportResponse,
                  u_Name = lrr_ReporterName reportResponse,
                  u_DisplayName = lrr_ReporterDisplayName reportResponse,
                  u_Description = lrr_ReporterDescription reportResponse,
                  u_Theme = \<lparr>th_ID = lrr_ReporterThemeID reportResponse,
                             th_DarkMode = lrr_ReporterDarkMode reportResponse\<rparr>,
                  u_IconHash = sprintf_x (sha256 reporterImage)\<rparr>;
               commentOwner =
                 \<lparr>u_ID = lrr_LCUserID reportResponse,
                  u_Name = lrr_LCUsername reportResponse,
                  u_DisplayName = lrr_LCUserDisplayName reportResponse,
                  u_Description = lrr_LCUserDescription reportResponse,
                  u_Theme = \<lparr>th_ID = lrr_LCUserThemeID reportResponse,
                             th_DarkMode = lrr_LCUserDarkMode reportResponse\<rparr>,
                  u_IconHash = sprintf_x (sha256 lcUserImage)\<rparr>;
               livestream =
                 \<lparr>ls_ID = lrr_LivestreamID reportResponse,
                  ls_Owner = commentOwner,
                  ls_Title = lrr_LivestreamTitle reportResponse,
                  ls_Description = lrr_LivestreamDescription reportResponse,
                  ls_PlaylistUrl = lrr_PlaylistURL reportResponse,
                  ls_ThumbnailUrl = lrr_ThumbnailURL reportResponse,
                  ls_StartAt = lrr_StartAt reportResponse,
                  ls_EndAt = lrr_EndAt reportResponse\<rparr>;
               livecomment =
                 \<lparr>lc_ID = lrr_LivecommentID reportResponse,
                  lc_User = commentOwner,
                  lc_Livestream = livestream,
                  lc_Comment = lrr_Comment reportResponse,
                  lc_Tip = lrr_Tip reportResponse,
                  lc_CreatedAt = lrr_LivecommentCreatedAt reportResponse\<rparr>
           in Inr \<lparr>lr_ID = lrr_ReportID reportResponse,
                   lr_Reporter = reporter,
                   lr_Livecomment = livecomment,
                   lr_CreatedAt = lrr_ReportCreatedAt reportResponse\<rparr>)))"

subsection \<open>Listing the comments of a stream\<close>

text \<open>
  \<^verbatim>\<open>SELECT * FROM livecomments WHERE livestream_id = ? ORDER BY created_at DESC\<close>. The
  statement orders by \<^verbatim>\<open>created_at\<close> alone, so the store is free in the order of rows
  with equal \<^verbatim>\<open>created_at\<close>. The answer of the store is therefore an input \<open>ordered\<close>
  of the handler, and \<open>livecomments_by_created_at_desc\<close> says which answers the
  statement admits: the rows of the stream, in an order that never ascends in
  \<^verbatim>\<open>created_at\<close>.
\<close>

definition livecomments_by_created_at_desc ::
  "store \<Rightarrow> int \<Rightarrow> LivecommentModel list \<Rightarrow> bool" where
  "livecomments_by_created_at_desc st livestreamID ordered =
     (mset ordered = mset (select_rows (\<lambda>lc. lcm_LivestreamID lc = livestreamID) (livecomments st))
      \<and> sorted_wrt (\<lambda>a b. lcm_CreatedAt a \<ge> lcm_CreatedAt b) ordered)"

text \<open>
  The optional \<^verbatim>\<open>LIMIT %d\<close> appended to the statement: the store keeps the first
  \<open>n\<close> rows of the ordered answer, and rejects a statement whose limit is negative.
\<close>

definition apply_limit :: "int option \<Rightarrow> 'a list \<Rightarrow> go_error + 'a list" where
  "apply_limit limit ordered =
     (case limit of
        None \<Rightarrow> Inr ordered
      | Some n \<Rightarrow> if n < 0 then Inl ErrStore else Inr (take (nat n) ordered))"

text \<open>The loop over \<^verbatim>\<open>livecommentModels\<close> that assembles the response.\<close>

fun fillLivecomments ::
  "(bytes \<Rightarrow> bytes) \<Rightarrow> bytes option \<Rightarrow> store \<Rightarrow> LivecommentModel list
     \<Rightarrow> http_error + Livecomment list" where
  "fillLivecomments sha256 fallback st [] = Inr []"
| "fillLivecomments sha256 fallback st (m # ms) =
     (case getLivecommentData st (lcm_ID m) of
        Inl err \<Rightarrow>
          (if err = ErrNoRows then Inl (HTTPError StatusNotFound NotFoundLivecommentWithID)
           else Inl (HTTPError StatusInternalServerError FailedToGetLivecomment))
      | Inr livecommentResponse \<Rightarrow>
          (case fillLivecommentResponse sha256 fallback livecommentResponse of
             Inl err \<Rightarrow> Inl (HTTPError StatusInternalServerError FailedToFillLivecomment)
           | Inr livecomment \<Rightarrow>
               (case fillLivecomments sha256 fallback st ms of
                  Inl e \<Rightarrow> Inl e
                | Inr rest \<Rightarrow> Inr (livecomment # rest))))"

text \<open>
  \<^verbatim>\<open>getLivecommentsHandler\<close>. \<open>livestream_id\<close> is the path parameter and \<open>limit\<close> the
  query parameter, both as the strings the request carries; an absent \<^verbatim>\<open>limit\<close> is the
  empty string.
\<close>

definition getLivecommentsHandler ::
  "(bytes \<Rightarrow> bytes) \<Rightarrow> bytes option \<Rightarrow> int \<Rightarrow> Session option \<Rightarrow> string \<Rightarrow> string
     \<Rightarrow> LivecommentModel list \<Rightarrow> store \<Rightarrow> http_error + Livecomment list" where
  "getLivecommentsHandler sha256 fallback now sess livestream_id limit ordered st =
     (case verifyUserSession now sess of
        Some err \<Rightarrow> Inl err
      | None \<Rightarrow>
     (case Atoi livestream_id of
        None \<Rightarrow> Inl (HTTPError StatusBadRequest LivestreamIDMustBeInteger)
      | Some livestreamID \<Rightarrow>
     (case (if limit \<noteq> [] then
              (case Atoi limit of
                 None \<Rightarrow> Inl (HTTPError StatusBadRequest LimitMustBeInteger)
               | Some l \<Rightarrow> Inr (Some l))
            else Inr None) of
        Inl e \<Rightarrow> Inl e
      | Inr lim \<Rightarrow>
     (case apply_limit lim ordered of
        Inl err \<Rightarrow>
          (if err = ErrNoRows then Inr []
           else Inl (HTTPError StatusInternalServerError FailedToGetLivecomments))
      | Inr livecommentModels \<Rightarrow>
          fillLivecomments sha256 fallback st livecommentModels))))"

subsection \<open>Submitting a comment\<close>



subsection \<open>Reporting a comment\<close>

definition reportLivecommentHandler ::
  "(bytes \<Rightarrow> bytes) \<Rightarrow> bytes option \<Rightarrow> int \<Rightarrow> Session option \<Rightarrow> string \<Rightarrow> string
     \<Rightarrow> store \<Rightarrow> (http_error + LivecommentReport) \<times> store" where
  "reportLivecommentHandler sha256 fallback now sess livestream_id livecomment_id st =
     (case verifyUserSession now sess of
        Some err \<Rightarrow> (Inl err, st)
      | None \<Rightarrow>
     (case Atoi livestream_id of
        None \<Rightarrow> (Inl (HTTPError StatusBadRequest LivestreamIDMustBeInteger), st)
      | Some livestreamID \<Rightarrow>
     (case Atoi livecomment_id of
        None \<Rightarrow> (Inl (HTTPError StatusBadRequest LivecommentIDMustBeInteger), st)
      | Some livecommentID \<Rightarrow>
     (case sessionUserID sess of
        None \<Rightarrow> (Inl Panic, st)
      | Some userID \<Rightarrow>
     (case get_row (\<lambda>ls. lsm_ID ls = livestreamID) (livestreams st) of
        Inl err \<Rightarrow> (Inl (HTTPError StatusNotFound LivestreamNotFound), st)
      | Inr livestreamModel \<Rightarrow>
     (case get_row (\<lambda>lc. lcm_ID lc = livecommentID) (livecomments st) of
        Inl err \<Rightarrow> (Inl (HTTPError StatusNotFound LivecommentNotFound), st)
      | Inr livecommentModel \<Rightarrow>
     (let reportID = livecomment_reports_auto st;
          reportModel =
            \<lparr>lrm_ID = reportID,
             lrm_UserID = userID,
             lrm_LivestreamID = livestreamID,
             lrm_LivecommentID = livecommentID,
             lrm_CreatedAt = now\<rparr>;
          st' = st\<lparr>livecomment_reports := livecomment_reports st @ [reportModel],
                   livecomment_reports_auto := reportID + 1\<rparr>
      in
     (case getLivecommentReportData st' reportID of
        Inl err \<Rightarrow>
          (if err = ErrNoRows
           then (Inl (HTTPError StatusNotFound NotFoundLivecommentReportWithID), st)
           else (Inl (HTTPError StatusInternalServerError FailedToGetLivecommentReport), st))
      | Inr reportResponse \<Rightarrow>
     (case fillLivecommentReportResponse sha256 fallback reportResponse of
        Inl err \<Rightarrow>
          (Inl (HTTPError StatusInternalServerError FailedToFillLivecommentReport), st)
      | Inr report \<Rightarrow> (Inr report, st'))))))))))"

subsection \<open>Registering an NG word\<close>

text \<open>
  The \<^verbatim>\<open>DELETE FROM livecomments WHERE id = ? AND livestream_id = ? AND (...) >= 1\<close>
  statement of the purge. The sub-query is the spam match of the two string parameters
  and does not read the row.
\<close>

definition deleteLivecomment ::
  "(char \<Rightarrow> char \<Rightarrow> bool) \<Rightarrow> int \<Rightarrow> int \<Rightarrow> string \<Rightarrow> string \<Rightarrow> LivecommentModel list
     \<Rightarrow> LivecommentModel list" where
  "deleteLivecomment coll livecommentID livestreamID comment word rows =
     filter (\<lambda>r. \<not> (lcm_ID r = livecommentID \<and> lcm_LivestreamID r = livestreamID
                     \<and> hitSpam coll comment word \<ge> 1)) rows"

text \<open>The inner loop: one \<^verbatim>\<open>DELETE\<close> for each comment that was read.\<close>

fun deleteLoop ::
  "(char \<Rightarrow> char \<Rightarrow> bool) \<Rightarrow> int \<Rightarrow> NGWord \<Rightarrow> LivecommentModel list \<Rightarrow> LivecommentModel list
     \<Rightarrow> LivecommentModel list" where
  "deleteLoop coll livestreamID ngword [] rows = rows"
| "deleteLoop coll livestreamID ngword (livecomment # rest) rows =
     deleteLoop coll livestreamID ngword rest
       (deleteLivecomment coll (lcm_ID livecomment) livestreamID (lcm_Comment livecomment)
          (ng_Word ngword) rows)"

text \<open>
  The outer loop: for each NG word, \<^verbatim>\<open>SELECT * FROM livecomments\<close> reads the whole
  table as the transaction sees it at that moment, then the inner loop runs.
\<close>

fun purgeLoop ::
  "(char \<Rightarrow> char \<Rightarrow> bool) \<Rightarrow> int \<Rightarrow> NGWord list \<Rightarrow> LivecommentModel list
     \<Rightarrow> LivecommentModel list" where
  "purgeLoop coll livestreamID [] rows = rows"
| "purgeLoop coll livestreamID (ngword # rest) rows =
     purgeLoop coll livestreamID rest (deleteLoop coll livestreamID ngword rows rows)"

text \<open>The response body \<^verbatim>\<open>{"word_id": wordID}\<close>.\<close>

record ModerateResponse =
  word_id :: int

definition moderateHandler ::
  "(char \<Rightarrow> char \<Rightarrow> bool) \<Rightarrow> int \<Rightarrow> Session option \<Rightarrow> string \<Rightarrow> ModerateRequest decoded
     \<Rightarrow> store \<Rightarrow> (http_error + ModerateResponse) \<times> store" where
  "moderateHandler coll now sess livestream_id body st =
     (case verifyUserSession now sess of
        Some err \<Rightarrow> (Inl err, st)
      | None \<Rightarrow>
     (case Atoi livestream_id of
        None \<Rightarrow> (Inl (HTTPError StatusBadRequest LivestreamIDMustBeInteger), st)
      | Some livestreamID \<Rightarrow>
     (case sessionUserID sess of
        None \<Rightarrow> (Inl Panic, st)
      | Some userID \<Rightarrow>
     (if body = DecodeError then (Inl (HTTPError StatusBadRequest FailedToDecodeBody), st)
      else
     (let ownedLivestreams =
            select_rows (\<lambda>ls. lsm_ID ls = livestreamID \<and> lsm_UserID ls = userID) (livestreams st)
      in
     (if length ownedLivestreams = 0
      then (Inl (HTTPError StatusBadRequest CannotModerateOthersLivestream), st)
      else
     (case body of
        DecodeError \<Rightarrow> (Inl (HTTPError StatusBadRequest FailedToDecodeBody), st)
      | DecodedNil \<Rightarrow> (Inl Panic, st)
      | Decoded req \<Rightarrow>
     (let wordID = ng_words_auto st;
          st' = st\<lparr>ng_words := ng_words st @
                     [\<lparr>ng_ID = wordID,
                       ng_UserID = userID,
                       ng_LivestreamID = livestreamID,
                       ng_Word = mr_NGWord req,
                       ng_CreatedAt = now\<rparr>],
                   ng_words_auto := wordID + 1\<rparr>;
          ngwords = select_rows (\<lambda>w. ng_LivestreamID w = livestreamID) (ng_words st');
          st2 = st'\<lparr>livecomments := purgeLoop coll livestreamID ngwords (livecomments st')\<rparr>
      in (Inr \<lparr>word_id = wordID\<rparr>, st2)))))))))"

subsection \<open>The scenario of the specification\<close>

text \<open>
  Stream 1 is owned by user 1 and carries the three comments of the specification's
  scenario, written by user 2; stream 2 is owned by user 2 and carries one comment by
  user 1. Comments 1 and 2 have the same creation time. No NG word and no report is
  stored yet, and no user has uploaded an icon.
\<close>

definition scenario_store :: store where
  "scenario_store =
     \<lparr>users =
        [\<lparr>um_ID = 1, um_Name = ''streamer'', um_DisplayName = ''Streamer'',
          um_Description = [], um_HashedPassword = []\<rparr>,
         \<lparr>um_ID = 2, um_Name = ''viewer'', um_DisplayName = ''Viewer'',
          um_Description = [], um_HashedPassword = []\<rparr>],
      themes =
        [\<lparr>tm_ID = 1, tm_UserID = 1, tm_DarkMode = False\<rparr>,
         \<lparr>tm_ID = 2, tm_UserID = 2, tm_DarkMode = True\<rparr>],
      icons = [],
      livestreams =
        [\<lparr>lsm_ID = 1, lsm_UserID = 1, lsm_Title = ''one'', lsm_Description = [],
          lsm_PlaylistUrl = [], lsm_ThumbnailUrl = [], lsm_StartAt = 0, lsm_EndAt = 3600\<rparr>,
         \<lparr>lsm_ID = 2, lsm_UserID = 2, lsm_Title = ''two'', lsm_Description = [],
          lsm_PlaylistUrl = [], lsm_ThumbnailUrl = [], lsm_StartAt = 0, lsm_EndAt = 3600\<rparr>],
      livecomments =
        [\<lparr>lcm_ID = 1, lcm_UserID = 2, lcm_LivestreamID = 1, lcm_Comment = ''hello world'',
          lcm_Tip = 0, lcm_CreatedAt = 100\<rparr>,
         \<lparr>lcm_ID = 2, lcm_UserID = 2, lcm_LivestreamID = 1,
          lcm_Comment = ''free banana today'', lcm_Tip = 0, lcm_CreatedAt = 100\<rparr>,
         \<lparr>lcm_ID = 3, lcm_UserID = 2, lcm_LivestreamID = 1,
          lcm_Comment = ''bananas are great'', lcm_Tip = 0, lcm_CreatedAt = 101\<rparr>,
         \<lparr>lcm_ID = 4, lcm_UserID = 1, lcm_LivestreamID = 2, lcm_Comment = ''banana split'',
          lcm_Tip = 0, lcm_CreatedAt = 102\<rparr>],
      ng_words = [],
      livecomment_reports = [],
      livecomments_auto = 5,
      ng_words_auto = 1,
      livecomment_reports_auto = 1\<rparr>"


text \<open>A session of the given user that expires at time 2000.\<close>

definition session_of :: "int \<Rightarrow> Session option" where
  "session_of userID = Some \<lparr>sess_Expires = Some 2000, sess_UserID = Some userID\<rparr>"

text \<open>
  Where an example has to run, \<open>example_digest\<close> stands in for \<^verbatim>\<open>sha256.Sum256\<close>: it
  yields 32 bytes, the input cut or padded with zeros. It is not a hash; the examples
  only need some function of that type.
\<close>

definition example_digest :: "bytes \<Rightarrow> bytes" where
  "example_digest bs = take 32 (bs @ replicate 32 0)"

text \<open>The bytes of the fallback image in the examples.\<close>

definition example_fallback :: "bytes option" where
  "example_fallback = Some [0xFF, 0xD8, 0xFF]"

section \<open>Properties\<close>

subsection \<open>Reading rows into structs\<close>

lemma getLivecommentData_fails: "getLivecommentData st livecommentID = Inl ErrStore"
  by (simp add: getLivecommentData_def missing_destination_def
        getLivecommentData_columns_def LivecommentResponse_fields_def)

lemma getLivecommentReportData_scans:
  "\<not> missing_destination getLivecommentReportData_columns LivecommentReportResponse_fields"
  by (simp add: missing_destination_def getLivecommentReportData_columns_def
        LivecommentReportResponse_fields_def)

subsection \<open>The spam match\<close>










subsection \<open>Registering an NG word\<close>

lemma verify_ok_userID:
  "verifyUserSession now sess = None \<Longrightarrow> \<exists>userID. sessionUserID sess = Some userID"
  by (auto simp: verifyUserSession_def sessionUserID_def split: option.splits if_splits)

lemma deleteLivecomment_other_streams:
  "filter (\<lambda>r. lcm_LivestreamID r \<noteq> S) (deleteLivecomment coll i S t w rows) =
   filter (\<lambda>r. lcm_LivestreamID r \<noteq> S) rows"
  unfolding deleteLivecomment_def filter_filter
  by (rule filter_cong) auto

lemma deleteLoop_other_streams:
  "filter (\<lambda>r. lcm_LivestreamID r \<noteq> S) (deleteLoop coll S w snapshot rows) =
   filter (\<lambda>r. lcm_LivestreamID r \<noteq> S) rows"
  by (induction snapshot arbitrary: rows) (simp_all add: deleteLivecomment_other_streams)

lemma purgeLoop_other_streams:
  "filter (\<lambda>r. lcm_LivestreamID r \<noteq> S) (purgeLoop coll S ws rows) =
   filter (\<lambda>r. lcm_LivestreamID r \<noteq> S) rows"
  by (induction ws arbitrary: rows) (simp_all add: deleteLoop_other_streams)

lemma deleteLoop_filter:
  "deleteLoop coll S w snapshot rows =
   filter (\<lambda>r. \<not> (lcm_LivestreamID r = S \<and>
      (\<exists>lc \<in> set snapshot. lcm_ID lc = lcm_ID r \<and> hitSpam coll (lcm_Comment lc) (ng_Word w) \<ge> 1)))
     rows"
proof (induction snapshot arbitrary: rows)
  case Nil
  then show ?case by simp
next
  case (Cons lc lcs)
  show ?case
    unfolding deleteLoop.simps Cons.IH deleteLivecomment_def filter_filter
    by (rule filter_cong) auto
qed

lemma deleteLoop_self:
  assumes "distinct (map lcm_ID rows)"
  shows "deleteLoop coll S w rows rows =
    filter (\<lambda>r. \<not> (lcm_LivestreamID r = S \<and> hitSpam coll (lcm_Comment r) (ng_Word w) \<ge> 1)) rows"
proof -
  have same: "lc = r" if "lc \<in> set rows" "r \<in> set rows" "lcm_ID lc = lcm_ID r" for lc r
    using assms that by (meson distinct_map inj_onD)
  show ?thesis
    unfolding deleteLoop_filter
    by (rule filter_cong) (use same in auto)
qed

lemma purgeLoop_filter:
  assumes "distinct (map lcm_ID rows)"
  shows "purgeLoop coll S ws rows =
    filter (\<lambda>r. \<not> (lcm_LivestreamID r = S \<and>
       (\<exists>w \<in> set ws. hitSpam coll (lcm_Comment r) (ng_Word w) \<ge> 1))) rows"
  using assms
proof (induction ws arbitrary: rows)
  case Nil
  then show ?case by simp
next
  case (Cons w ws)
  let ?step = "filter (\<lambda>r. \<not> (lcm_LivestreamID r = S \<and> hitSpam coll (lcm_Comment r) (ng_Word w) \<ge> 1)) rows"
  have d: "distinct (map lcm_ID ?step)" using Cons.prems by (rule distinct_map_filter)
  show ?case
    unfolding purgeLoop.simps deleteLoop_self[OF Cons.prems] Cons.IH[OF d] filter_filter
    by (rule filter_cong) auto
qed

lemma moderateHandler_not_owner:
  assumes "verifyUserSession now sess = None"
    and "Atoi livestream_id = Some S"
    and "sessionUserID sess = Some userID"
    and "body \<noteq> DecodeError"
    and "\<not> list_ex (\<lambda>ls. lsm_ID ls = S \<and> lsm_UserID ls = userID) (livestreams st)"
  shows "moderateHandler coll now sess livestream_id body st =
           (Inl (HTTPError StatusBadRequest CannotModerateOthersLivestream), st)"
proof -
  have "select_rows (\<lambda>ls. lsm_ID ls = S \<and> lsm_UserID ls = userID) (livestreams st) = []"
    using assms(5) by (auto simp: select_rows_def list_ex_iff filter_empty_conv)
  then show ?thesis
    using assms(1-4) by (simp add: moderateHandler_def)
qed

lemma moderateHandler_owner:
  assumes "verifyUserSession now sess = None"
    and "Atoi livestream_id = Some S"
    and "sessionUserID sess = Some userID"
    and "list_ex (\<lambda>ls. lsm_ID ls = S \<and> lsm_UserID ls = userID) (livestreams st)"
  shows "moderateHandler coll now sess livestream_id (Decoded req) st =
     (Inr \<lparr>word_id = ng_words_auto st\<rparr>,
      st\<lparr>ng_words := ng_words st @
             [\<lparr>ng_ID = ng_words_auto st, ng_UserID = userID, ng_LivestreamID = S,
               ng_Word = mr_NGWord req, ng_CreatedAt = now\<rparr>],
         ng_words_auto := ng_words_auto st + 1,
         livecomments := purgeLoop coll S
            (select_rows (\<lambda>w. ng_LivestreamID w = S)
               (ng_words st @
                 [\<lparr>ng_ID = ng_words_auto st, ng_UserID = userID, ng_LivestreamID = S,
                   ng_Word = mr_NGWord req, ng_CreatedAt = now\<rparr>]))
            (livecomments st)\<rparr>)"
proof -
  have "select_rows (\<lambda>ls. lsm_ID ls = S \<and> lsm_UserID ls = userID) (livestreams st) \<noteq> []"
    using assms(4) by (auto simp: select_rows_def list_ex_iff filter_empty_conv)
  then show ?thesis
    using assms(1-3) by (simp add: moderateHandler_def Let_def)
qed


lemma atoi_examples:
  "Atoi ''1'' = Some 1" "Atoi ''2'' = Some 2" "Atoi ''-1'' = Some (- 1)" "Atoi ''0'' = Some 0"
  "Atoi ''abc'' = None" "Atoi ''9'' = Some 9"
  by (simp_all add: Atoi_def is_digit_def digits_value_def)

lemma session_of_ok:
  "verifyUserSession 1000 (session_of userID) = None"
  "sessionUserID (session_of userID) = Some userID"
  by (simp_all add: verifyUserSession_def sessionUserID_def session_of_def)

lemmas moderate_eval = moderateHandler_def scenario_store_def session_of_def
  verifyUserSession_def sessionUserID_def atoi_examples select_rows_def deleteLivecomment_def
  hitSpam_def concat_pattern_def percent_def underscore_def backslash_def binary_def Let_def

text \<open>
  Claim C2, as the code has it. When the owner of stream \<open>S\<close> registers a word (valid
  session, well-formed request, comment ids unique), the handler stores the new row,
  answers with the id of that row and nothing else, and leaves exactly those comments
  that are not both in stream \<open>S\<close> and matched (\<open>hitSpam \<ge> 1\<close>) by some NG word row of
  stream \<open>S\<close>, the new one included; the comments that stay are unchanged and keep their
  order.
\<close>

theorem moderate_purges_matching_comments:
  assumes "verifyUserSession now sess = None"
    and "Atoi livestream_id = Some S"
    and "sessionUserID sess = Some userID"
    and "\<exists>ls \<in> set (livestreams st). lsm_ID ls = S \<and> lsm_UserID ls = userID"
    and "distinct (map lcm_ID (livecomments st))"
    and "ngword = \<lparr>ng_ID = ng_words_auto st, ng_UserID = userID, ng_LivestreamID = S,
                   ng_Word = mr_NGWord req, ng_CreatedAt = now\<rparr>"
  shows "moderateHandler coll now sess livestream_id (Decoded req) st =
     (Inr \<lparr>word_id = ng_words_auto st\<rparr>,
      st\<lparr>ng_words := ng_words st @ [ngword],
         ng_words_auto := ng_words_auto st + 1,
         livecomments :=
           filter (\<lambda>c. \<not> (lcm_LivestreamID c = S \<and>
                     (\<exists>w \<in> set (ng_words st @ [ngword]).
                         ng_LivestreamID w = S \<and> hitSpam coll (lcm_Comment c) (ng_Word w) \<ge> 1)))
             (livecomments st)\<rparr>)"
proof -
  have own: "list_ex (\<lambda>ls. lsm_ID ls = S \<and> lsm_UserID ls = userID) (livestreams st)"
    using assms(4) by (simp add: list_ex_iff)
  have "purgeLoop coll S (select_rows (\<lambda>w. ng_LivestreamID w = S) (ng_words st @ [ngword]))
          (livecomments st) =
        filter (\<lambda>c. \<not> (lcm_LivestreamID c = S \<and>
                     (\<exists>w \<in> set (ng_words st @ [ngword]).
                         ng_LivestreamID w = S \<and> hitSpam coll (lcm_Comment c) (ng_Word w) \<ge> 1)))
             (livecomments st)"
    unfolding purgeLoop_filter[OF assms(5)] select_rows_def
    by (rule filter_cong) auto
  then show ?thesis
    unfolding moderateHandler_owner[OF assms(1-3) own] assms(6) by simp
qed

text \<open>
  The scenario of the specification: the owner of stream 1 registers \<^verbatim>\<open>banana\<close>; comments
  2 and 3 are deleted, comment 1 stays, and so does the comment of stream 2.
\<close>

theorem moderate_purges_matching_comments_witness:
  "verifyUserSession 1000 (session_of 1) = None
   \<and> Atoi ''1'' = Some 1
   \<and> fst (moderateHandler binary 1000 (session_of 1) ''1''
            (Decoded \<lparr>mr_NGWord = ''banana''\<rparr>) scenario_store) = Inr \<lparr>word_id = 1\<rparr>
   \<and> map lcm_Comment (livecomments (snd (moderateHandler binary 1000 (session_of 1) ''1''
            (Decoded \<lparr>mr_NGWord = ''banana''\<rparr>) scenario_store))) =
       [''hello world'', ''banana split'']"
proof -
  have own: "\<exists>ls \<in> set (livestreams scenario_store). lsm_ID ls = 1 \<and> lsm_UserID ls = 1"
    by (simp add: scenario_store_def)
  have d: "distinct (map lcm_ID (livecomments scenario_store))"
    by (simp add: scenario_store_def)
  note t = moderate_purges_matching_comments[OF session_of_ok(1) atoi_examples(1)
      session_of_ok(2) own d refl, of binary "\<lparr>mr_NGWord = ''banana''\<rparr>"]
  have "map lcm_Comment (livecomments (snd (moderateHandler binary 1000 (session_of 1) ''1''
            (Decoded \<lparr>mr_NGWord = ''banana''\<rparr>) scenario_store))) =
       [''hello world'', ''banana split'']"
    unfolding t
    by (simp add: scenario_store_def hitSpam_def concat_pattern_def percent_def underscore_def
          backslash_def binary_def)
  moreover have "fst (moderateHandler binary 1000 (session_of 1) ''1''
            (Decoded \<lparr>mr_NGWord = ''banana''\<rparr>) scenario_store) = Inr \<lparr>word_id = 1\<rparr>"
    unfolding t by (simp add: scenario_store_def)
  ultimately show ?thesis
    using session_of_ok(1) atoi_examples(1) by simp
qed

text \<open>
  Claim C2 as stated fails twice. The word \<^verbatim>\<open>b_nana\<close> deletes comments 2 and 3 although
  neither body contains it as a substring. And the response is \<^verbatim>\<open>{"word_id": 1}\<close> both
  when two comments are deleted and when none is: it carries no count of the purge.
\<close>

theorem moderate_purge_counterexample:
  "fst (moderateHandler binary 1000 (session_of 1) ''1''
          (Decoded \<lparr>mr_NGWord = ''b_nana''\<rparr>) scenario_store) = Inr \<lparr>word_id = 1\<rparr>
   \<and> map lcm_ID (livecomments (snd (moderateHandler binary 1000 (session_of 1) ''1''
          (Decoded \<lparr>mr_NGWord = ''b_nana''\<rparr>) scenario_store))) = [1, 4]
   \<and> \<not> sublist ''b_nana'' ''free banana today''
   \<and> \<not> sublist ''b_nana'' ''bananas are great''
   \<and> fst (moderateHandler binary 1000 (session_of 1) ''1''
          (Decoded \<lparr>mr_NGWord = ''xyz''\<rparr>) scenario_store) = Inr \<lparr>word_id = 1\<rparr>
   \<and> map lcm_ID (livecomments (snd (moderateHandler binary 1000 (session_of 1) ''1''
          (Decoded \<lparr>mr_NGWord = ''xyz''\<rparr>) scenario_store))) = [1, 2, 3, 4]"
  by (simp add: moderate_eval sublist_code)

text \<open>
  Claim C3, as the code has it. A caller with a valid session and a decodable request who
  owns no stream with the given id (whether or not such a stream exists) gets the error
  \<^verbatim>\<open>400 Bad Request\<close>, "A streamer can't moderate livestreams that other streamers own",
  and the store is left exactly as it was: no NG word is added and no comment is deleted.
\<close>

theorem moderate_not_owner_rejected:
  assumes "verifyUserSession now sess = None"
    and "Atoi livestream_id = Some S"
    and "sessionUserID sess = Some userID"
    and "body \<noteq> DecodeError"
    and "\<forall>ls \<in> set (livestreams st). \<not> (lsm_ID ls = S \<and> lsm_UserID ls = userID)"
  shows "moderateHandler coll now sess livestream_id body st =
           (Inl (HTTPError StatusBadRequest CannotModerateOthersLivestream), st)"
proof -
  have "\<not> list_ex (\<lambda>ls. lsm_ID ls = S \<and> lsm_UserID ls = userID) (livestreams st)"
    using assms(5) by (simp add: list_ex_iff)
  then show ?thesis
    by (rule moderateHandler_not_owner[OF assms(1-4)])
qed

text \<open>
  User 2 tries to moderate stream 1, which exists and belongs to user 1.
\<close>

theorem moderate_not_owner_rejected_witness:
  "verifyUserSession 1000 (session_of 2) = None
   \<and> Atoi ''1'' = Some 1
   \<and> sessionUserID (session_of 2) = Some 2
   \<and> list_ex (\<lambda>ls. lsm_ID ls = 1) (livestreams scenario_store)
   \<and> moderateHandler binary 1000 (session_of 2) ''1'' (Decoded \<lparr>mr_NGWord = ''banana''\<rparr>)
       scenario_store =
     (Inl (HTTPError StatusBadRequest CannotModerateOthersLivestream), scenario_store)"
proof -
  have no: "\<forall>ls \<in> set (livestreams scenario_store). \<not> (lsm_ID ls = 1 \<and> lsm_UserID ls = 2)"
    by (simp add: scenario_store_def)
  have ex: "list_ex (\<lambda>ls. lsm_ID ls = 1) (livestreams scenario_store)"
    by (simp add: scenario_store_def)
  have b: "Decoded \<lparr>mr_NGWord = ''banana''\<rparr> \<noteq> DecodeError" by simp
  show ?thesis
    using session_of_ok(1)[of 2] atoi_examples(1) session_of_ok(2)[of 2] ex
      moderate_not_owner_rejected[OF session_of_ok(1) atoi_examples(1) session_of_ok(2) b no,
        of binary]
    by simp
qed

text \<open>
  Claim C3 as stated fails in the kind of the error: the status of the response is
  \<^verbatim>\<open>http.StatusBadRequest\<close>, not \<^verbatim>\<open>http.StatusForbidden\<close>.
\<close>

theorem moderate_not_owner_status_counterexample:
  "fst (moderateHandler binary 1000 (session_of 2) ''1'' (Decoded \<lparr>mr_NGWord = ''banana''\<rparr>)
          scenario_store) =
     Inl (HTTPError StatusBadRequest CannotModerateOthersLivestream)
   \<and> StatusBadRequest \<noteq> StatusForbidden"
  by (simp add: moderate_eval)

text \<open>
  Claim C5. Whatever the outcome of registering an NG word for stream \<open>S\<close>, the comments of
  all other streams are the same rows in the same order afterwards, although the purge
  reads every comment of the system as a candidate.
\<close>

theorem moderate_other_streams_unchanged:
  assumes "Atoi livestream_id = Some S"
  shows "filter (\<lambda>c. lcm_LivestreamID c \<noteq> S)
           (livecomments (snd (moderateHandler coll now sess livestream_id body st))) =
         filter (\<lambda>c. lcm_LivestreamID c \<noteq> S) (livecomments st)"
  using assms unfolding moderateHandler_def Let_def
  by (simp add: purgeLoop_other_streams split: option.splits decoded.splits)

text \<open>
  In the scenario the comment of stream 2 contains \<^verbatim>\<open>banana\<close> and survives the
  registration of that word for stream 1, which deletes two comments of stream 1.
\<close>

theorem moderate_other_streams_unchanged_witness:
  "Atoi ''1'' = Some 1
   \<and> hitSpam binary ''banana split'' ''banana'' \<ge> 1
   \<and> map lcm_Comment (filter (\<lambda>c. lcm_LivestreamID c \<noteq> 1)
        (livecomments (snd (moderateHandler binary 1000 (session_of 1) ''1''
            (Decoded \<lparr>mr_NGWord = ''banana''\<rparr>) scenario_store)))) = [''banana split'']
   \<and> map lcm_Comment (filter (\<lambda>c. lcm_LivestreamID c = 1)
        (livecomments (snd (moderateHandler binary 1000 (session_of 1) ''1''
            (Decoded \<lparr>mr_NGWord = ''banana''\<rparr>) scenario_store)))) = [''hello world'']"
proof -
  note t = moderate_other_streams_unchanged[OF atoi_examples(1), of binary 1000 "session_of 1"
      "Decoded \<lparr>mr_NGWord = ''banana''\<rparr>" scenario_store]
  have a: "map lcm_Comment (filter (\<lambda>c. lcm_LivestreamID c \<noteq> 1)
        (livecomments (snd (moderateHandler binary 1000 (session_of 1) ''1''
            (Decoded \<lparr>mr_NGWord = ''banana''\<rparr>) scenario_store)))) = [''banana split'']"
    unfolding t by (simp add: scenario_store_def)
  have b: "map lcm_Comment (filter (\<lambda>c. lcm_LivestreamID c = 1)
        (livecomments (snd (moderateHandler binary 1000 (session_of 1) ''1''
            (Decoded \<lparr>mr_NGWord = ''banana''\<rparr>) scenario_store)))) = [''hello world'']"
    by (simp add: moderate_eval)
  have c: "hitSpam binary ''banana split'' ''banana'' \<ge> 1"
    by (simp add: hitSpam_def concat_pattern_def percent_def underscore_def backslash_def
          binary_def)
  show ?thesis using a b c atoi_examples(1) by simp
qed

subsection \<open>Submitting a comment\<close>


lemma find_exists:
  "\<exists>x \<in> set xs. P x \<Longrightarrow> \<exists>y. find P xs = Some y \<and> P y"
  by (induction xs) auto

lemma find_snoc_fresh:
  "\<forall>y \<in> set xs. \<not> P y \<Longrightarrow> P x \<Longrightarrow> find P (xs @ [x]) = Some x"
  by (induction xs) auto

lemma find_holds: "find P xs = Some y \<Longrightarrow> P y"
  by (induction xs) (auto split: if_splits)





subsection \<open>Listing the comments of a stream\<close>

lemma Atoi_empty: "Atoi [] = None"
  by (simp add: Atoi_def)

text \<open>
  Claim C7, as the code has it. With a valid session and a stream id that parses: a
  present limit that \<^verbatim>\<open>strconv.Atoi\<close> does not parse is answered with
  \<^verbatim>\<open>400 Bad Request\<close>; a limit that parses to 0 yields the empty sequence; a stream without
  comments yields the empty sequence when the limit is absent or parses to a number that
  is not negative. A limit that parses to a negative number passes the check of the
  handler and is refused by the store, which the handler reports as
  \<^verbatim>\<open>500 Internal Server Error\<close>.
\<close>

theorem list_limit_handling:
  assumes "verifyUserSession now sess = None"
    and "Atoi livestream_id = Some S"
    and "r = getLivecommentsHandler sha256 fallback now sess livestream_id limit ordered st"
  shows "(limit \<noteq> [] \<and> Atoi limit = None
            \<longrightarrow> r = Inl (HTTPError StatusBadRequest LimitMustBeInteger))
     \<and> (Atoi limit = Some 0 \<longrightarrow> r = Inr [])
     \<and> (livecomments_by_created_at_desc st S ordered
          \<and> (\<forall>c \<in> set (livecomments st). lcm_LivestreamID c \<noteq> S)
          \<and> (limit = [] \<or> (\<exists>n. Atoi limit = Some n \<and> 0 \<le> n))
            \<longrightarrow> r = Inr [])
     \<and> (\<forall>n. Atoi limit = Some n \<and> n < 0
            \<longrightarrow> r = Inl (HTTPError StatusInternalServerError FailedToGetLivecomments))"
proof -
  have c1: "r = Inl (HTTPError StatusBadRequest LimitMustBeInteger)"
    if "limit \<noteq> []" "Atoi limit = None"
    using that assms by (simp add: getLivecommentsHandler_def)
  have c2: "r = Inr []" if "Atoi limit = Some 0"
  proof -
    have "limit \<noteq> []" using that Atoi_empty by auto
    then show ?thesis
      using that assms by (simp add: getLivecommentsHandler_def apply_limit_def)
  qed
  have c3: "r = Inr []"
    if adm: "livecomments_by_created_at_desc st S ordered"
      and none: "\<forall>c \<in> set (livecomments st). lcm_LivestreamID c \<noteq> S"
      and lim: "limit = [] \<or> (\<exists>n. Atoi limit = Some n \<and> 0 \<le> n)"
  proof -
    have "select_rows (\<lambda>lc. lcm_LivestreamID lc = S) (livecomments st) = []"
      using none by (simp add: select_rows_def filter_empty_conv)
    then have e: "ordered = []"
      using adm by (simp add: livecomments_by_created_at_desc_def)
    from lim show ?thesis
    proof
      assume "limit = []"
      then show ?thesis using e assms by (simp add: getLivecommentsHandler_def apply_limit_def)
    next
      assume "\<exists>n. Atoi limit = Some n \<and> 0 \<le> n"
      then obtain n where n: "Atoi limit = Some n" "0 \<le> n" by blast
      then have "limit \<noteq> []" using Atoi_empty by auto
      then show ?thesis
        using n e assms by (simp add: getLivecommentsHandler_def apply_limit_def)
    qed
  qed
  have c4: "r = Inl (HTTPError StatusInternalServerError FailedToGetLivecomments)"
    if "Atoi limit = Some n" "n < 0" for n
  proof -
    have "limit \<noteq> []" using that Atoi_empty by auto
    then show ?thesis
      using that assms by (simp add: getLivecommentsHandler_def apply_limit_def)
  qed
  show ?thesis using c1 c2 c3 c4 by blast
qed

lemmas list_eval = getLivecommentsHandler_def apply_limit_def scenario_store_def
  session_of_def verifyUserSession_def sessionUserID_def atoi_examples
  getLivecommentData_fails Let_def

text \<open>
  Claim C7 as stated fails for a negative limit: \<^verbatim>\<open>-1\<close> is an integer for
  \<^verbatim>\<open>strconv.Atoi\<close>, and the answer is an internal error, not the error of an invalid
  argument.
\<close>

theorem list_negative_limit_counterexample:
  "Atoi ''-1'' = Some (- 1)
   \<and> getLivecommentsHandler example_digest example_fallback 1000 (session_of 2) ''1'' ''-1''
       (rev (filter (\<lambda>c. lcm_LivestreamID c = 1) (livecomments scenario_store))) scenario_store =
     Inl (HTTPError StatusInternalServerError FailedToGetLivecomments)
   \<and> StatusInternalServerError \<noteq> StatusBadRequest"
  by (simp add: list_eval)

text \<open>
  Claim C6, evaluated where the code departs from it. With a valid session and no limit,
  whenever the store answers the listing query with at least one comment the loop of the
  handler calls \<^verbatim>\<open>getLivecommentData\<close> for the first of them, that call fails, and the
  handler answers \<^verbatim>\<open>500 Internal Server Error\<close>, "failed to get livecomment", instead of
  the comments. Stream 1 of the scenario is such a case.
\<close>

theorem list_nonempty_stream_fails:
  "getLivecommentsHandler sha256 fallback 1000 (session_of userID) ''1'' [] (m # ms) st =
     Inl (HTTPError StatusInternalServerError FailedToGetLivecomment)
   \<and> getLivecommentsHandler sha256 fallback 1000 (session_of userID) ''1'' []
       (rev (filter (\<lambda>c. lcm_LivestreamID c = 1) (livecomments scenario_store)))
       scenario_store =
     Inl (HTTPError StatusInternalServerError FailedToGetLivecomment)"
  by (simp add: getLivecommentsHandler_def apply_limit_def session_of_ok atoi_examples
        getLivecommentData_fails scenario_store_def)

text \<open>
  On the scenario: the limit \<^verbatim>\<open>abc\<close>, the limit \<^verbatim>\<open>0\<close>, stream 9 (which has no comments)
  without a limit, and the limit \<^verbatim>\<open>-1\<close>.
\<close>

theorem list_limit_handling_witness:
  "verifyUserSession 1000 (session_of 2) = None
   \<and> Atoi ''1'' = Some 1
   \<and> Atoi ''9'' = Some 9
   \<and> getLivecommentsHandler example_digest example_fallback 1000 (session_of 2) ''1'' ''abc''
       (rev (filter (\<lambda>c. lcm_LivestreamID c = 1) (livecomments scenario_store))) scenario_store =
     Inl (HTTPError StatusBadRequest LimitMustBeInteger)
   \<and> getLivecommentsHandler example_digest example_fallback 1000 (session_of 2) ''1'' ''0''
       (rev (filter (\<lambda>c. lcm_LivestreamID c = 1) (livecomments scenario_store))) scenario_store =
     Inr []
   \<and> getLivecommentsHandler example_digest example_fallback 1000 (session_of 2) ''9'' [] []
       scenario_store = Inr []
   \<and> getLivecommentsHandler example_digest example_fallback 1000 (session_of 2) ''1'' ''-1''
       (rev (filter (\<lambda>c. lcm_LivestreamID c = 1) (livecomments scenario_store))) scenario_store =
     Inl (HTTPError StatusInternalServerError FailedToGetLivecomments)"
proof -
  let ?ord = "rev (filter (\<lambda>c. lcm_LivestreamID c = 1) (livecomments scenario_store))"
  note t = list_limit_handling[where ?sha256.0 = example_digest and fallback = example_fallback
      and st = scenario_store, OF session_of_ok(1)[of 2] _ refl]
  have a: "limit \<noteq> [] \<and> Atoi limit = None" if "limit = ''abc''" for limit
    using that atoi_examples(5) by simp
  have r1: "getLivecommentsHandler example_digest example_fallback 1000 (session_of 2) ''1''
      ''abc'' ?ord scenario_store = Inl (HTTPError StatusBadRequest LimitMustBeInteger)"
    using t[where limit = "''abc''" and ordered = ?ord, OF atoi_examples(1), THEN conjunct1] a by blast
  have r2: "getLivecommentsHandler example_digest example_fallback 1000 (session_of 2) ''1''
      ''0'' ?ord scenario_store = Inr []"
    using t[where limit = "''0''" and ordered = ?ord, OF atoi_examples(1), THEN conjunct2, THEN conjunct1]
      atoi_examples(4) by blast
  have adm: "livecomments_by_created_at_desc scenario_store 9 []"
    by (simp add: livecomments_by_created_at_desc_def select_rows_def scenario_store_def)
  have none: "\<forall>c \<in> set (livecomments scenario_store). lcm_LivestreamID c \<noteq> 9"
    by (simp add: scenario_store_def)
  have r3: "getLivecommentsHandler example_digest example_fallback 1000 (session_of 2) ''9''
      [] [] scenario_store = Inr []"
    using t[where limit = "[]" and ordered = "[]", OF atoi_examples(6), THEN conjunct2, THEN conjunct2, THEN conjunct1]
      adm none by blast
  have neg: "Atoi ''-1'' = Some (- 1) \<and> (- 1 :: int) < 0" using atoi_examples(3) by simp
  have r4: "getLivecommentsHandler example_digest example_fallback 1000 (session_of 2) ''1''
      ''-1'' ?ord scenario_store =
      Inl (HTTPError StatusInternalServerError FailedToGetLivecomments)"
    using t[where limit = "''-1''" and ordered = ?ord, OF atoi_examples(1), THEN conjunct2, THEN conjunct2,
        THEN conjunct2] neg by blast
  show ?thesis
    using session_of_ok(1)[of 2] atoi_examples(1,6) r1 r2 r3 r4 by simp
qed

subsection \<open>Reporting a comment\<close>

lemma find_none: "\<forall>x \<in> set xs. \<not> P x \<Longrightarrow> find P xs = None"
  by (simp add: find_None_iff)

text \<open>
  Claim C8. With a valid session and ids that parse, a report against a comment id that
  no comment has is answered with \<^verbatim>\<open>404 Not Found\<close> (for the comment when the stream
  exists, for the stream otherwise), and the store, its report table included, is exactly
  the one before the call.
\<close>

theorem report_missing_comment_not_found:
  assumes "verifyUserSession now sess = None"
    and "Atoi livestream_id = Some S"
    and "Atoi livecomment_id = Some C"
    and "\<forall>c \<in> set (livecomments st). lcm_ID c \<noteq> C"
    and "r = reportLivecommentHandler sha256 fallback now sess livestream_id livecomment_id st"
  shows "snd r = st
     \<and> fst r = Inl (HTTPError StatusNotFound
                    (if list_ex (\<lambda>ls. lsm_ID ls = S) (livestreams st)
                     then LivecommentNotFound else LivestreamNotFound))"
proof -
  obtain userID where uid: "sessionUserID sess = Some userID"
    using verify_ok_userID[OF assms(1)] by blast
  have nc: "find (\<lambda>lc. lcm_ID lc = C) (livecomments st) = None"
    using assms(4) by (intro find_none) simp
  show ?thesis
  proof (cases "list_ex (\<lambda>ls. lsm_ID ls = S) (livestreams st)")
    case True
    then obtain ls where "find (\<lambda>ls. lsm_ID ls = S) (livestreams st) = Some ls"
      using find_exists[of "livestreams st" "\<lambda>ls. lsm_ID ls = S"] by (auto simp: list_ex_iff)
    then show ?thesis
      using True assms(1-3,5) uid nc
      by (simp add: reportLivecommentHandler_def get_row_def)
  next
    case False
    then have "find (\<lambda>ls. lsm_ID ls = S) (livestreams st) = None"
      by (simp add: find_None_iff list_ex_iff)
    then show ?thesis
      using False assms(1-3,5) uid
      by (simp add: reportLivecommentHandler_def get_row_def)
  qed
qed

lemma fillLivecommentReportResponse_ok:
  assumes "fallback \<noteq> None"
  shows "\<exists>report. fillLivecommentReportResponse sha256 fallback row = Inr report
     \<and> lr_ID report = lrr_ReportID row
     \<and> lc_ID (lr_Livecomment report) = lrr_LivecommentID row
     \<and> ls_ID (lc_Livestream (lr_Livecomment report)) = lrr_LivestreamID row
     \<and> u_ID (lr_Reporter report) = lrr_ReporterID row"
  using assms
  by (auto simp: fillLivecommentReportResponse_def readFallback_def Let_def split: option.splits)

text \<open>
  Claim C10. With a valid session, an existing stream \<open>S\<close> and an existing comment \<open>C\<close>
  (reporter and author with user row and theme, the comment's own stream present, the
  fallback image readable, the next report id unused) the report is stored and answered.
  No hypothesis relates the stream of the comment to \<open>S\<close>: the stored row carries \<open>S\<close> as
  given in the request, while the response shows the stream the comment belongs to.
\<close>

theorem report_accepts_comment_of_any_stream:
  assumes "verifyUserSession now sess = None"
    and "Atoi livestream_id = Some S"
    and "Atoi livecomment_id = Some C"
    and "sessionUserID sess = Some userID"
    and "\<exists>ls \<in> set (livestreams st). lsm_ID ls = S"
    and "find (\<lambda>lc. lcm_ID lc = C) (livecomments st) = Some c"
    and "\<forall>lr \<in> set (livecomment_reports st). lrm_ID lr \<noteq> livecomment_reports_auto st"
    and "\<exists>u \<in> set (users st). um_ID u = userID"
    and "\<exists>t \<in> set (themes st). tm_UserID t = userID"
    and "\<exists>u \<in> set (users st). um_ID u = lcm_UserID c"
    and "\<exists>t \<in> set (themes st). tm_UserID t = lcm_UserID c"
    and "\<exists>ls \<in> set (livestreams st). lsm_ID ls = lcm_LivestreamID c"
    and "fallback \<noteq> None"
  shows "\<exists>report.
      reportLivecommentHandler sha256 fallback now sess livestream_id livecomment_id st =
        (Inr report,
         st\<lparr>livecomment_reports := livecomment_reports st @
               [\<lparr>lrm_ID = livecomment_reports_auto st, lrm_UserID = userID,
                 lrm_LivestreamID = S, lrm_LivecommentID = C, lrm_CreatedAt = now\<rparr>],
            livecomment_reports_auto := livecomment_reports_auto st + 1\<rparr>)
      \<and> lr_ID report = livecomment_reports_auto st
      \<and> lc_ID (lr_Livecomment report) = C
      \<and> ls_ID (lc_Livestream (lr_Livecomment report)) = lcm_LivestreamID c"
proof -
  let ?new = "\<lparr>lrm_ID = livecomment_reports_auto st, lrm_UserID = userID,
                 lrm_LivestreamID = S, lrm_LivecommentID = C, lrm_CreatedAt = now\<rparr>"
  let ?st' = "st\<lparr>livecomment_reports := livecomment_reports st @ [?new],
            livecomment_reports_auto := livecomment_reports_auto st + 1\<rparr>"
  have cid: "lcm_ID c = C" using find_holds[OF assms(6)] .
  obtain ls where f0: "find (\<lambda>ls. lsm_ID ls = S) (livestreams st) = Some ls"
    using find_exists[OF assms(5)] by blast
  have f1: "find (\<lambda>lr. lrm_ID lr = livecomment_reports_auto st)
              (livecomment_reports st @ [?new]) = Some ?new"
    using assms(7) by (intro find_snoc_fresh) auto
  obtain ru where f2: "find (\<lambda>u. um_ID u = userID) (users st) = Some ru"
    and ru: "um_ID ru = userID"
    using find_exists[OF assms(8)] by blast
  obtain rt where f3: "find (\<lambda>t. tm_UserID t = userID) (themes st) = Some rt"
    using find_exists[OF assms(9)] by blast
  obtain lu where f4: "find (\<lambda>u. um_ID u = lcm_UserID c) (users st) = Some lu"
    and lu: "um_ID lu = lcm_UserID c"
    using find_exists[OF assms(10)] by blast
  obtain lt where f5: "find (\<lambda>t. tm_UserID t = lcm_UserID c) (themes st) = Some lt"
    using find_exists[OF assms(11)] by blast
  obtain cls where f6: "find (\<lambda>ls. lsm_ID ls = lcm_LivestreamID c) (livestreams st) = Some cls"
    and cls: "lsm_ID cls = lcm_LivestreamID c"
    using find_exists[OF assms(12)] by blast
  obtain row where row: "getLivecommentReportData ?st' (livecomment_reports_auto st) = Inr row"
    and r1: "lrr_ReportID row = livecomment_reports_auto st"
    and r2: "lrr_LivecommentID row = C"
    and r3: "lrr_LivestreamID row = lcm_LivestreamID c"
    using f1 f2 f3 f4 f5 f6 ru lu cls cid assms(6)
    by (simp add: getLivecommentReportData_def getLivecommentReportData_scans get_row_def
          left_join_def)
  obtain report where rep: "fillLivecommentReportResponse sha256 fallback row = Inr report"
    and p1: "lr_ID report = lrr_ReportID row"
    and p2: "lc_ID (lr_Livecomment report) = lrr_LivecommentID row"
    and p3: "ls_ID (lc_Livestream (lr_Livecomment report)) = lrr_LivestreamID row"
    using fillLivecommentReportResponse_ok[OF assms(13)] by blast
  have "reportLivecommentHandler sha256 fallback now sess livestream_id livecomment_id st =
        (Inr report, ?st')"
    using assms(1-4,6) f0 row rep
    by (simp add: reportLivecommentHandler_def get_row_def Let_def)
  then show ?thesis using p1 p2 p3 r1 r2 r3 by simp
qed


text \<open>
  In the scenario no comment has id 9: a report against it on stream 1, and one on the
  missing stream 9.
\<close>

theorem report_missing_comment_not_found_witness:
  "verifyUserSession 1000 (session_of 2) = None
   \<and> Atoi ''1'' = Some 1
   \<and> Atoi ''9'' = Some 9
   \<and> reportLivecommentHandler example_digest example_fallback 1000 (session_of 2) ''1'' ''9''
        scenario_store =
      (Inl (HTTPError StatusNotFound LivecommentNotFound), scenario_store)
   \<and> reportLivecommentHandler example_digest example_fallback 1000 (session_of 2) ''9'' ''9''
        scenario_store =
      (Inl (HTTPError StatusNotFound LivestreamNotFound), scenario_store)"
proof -
  have no: "\<forall>c \<in> set (livecomments scenario_store). lcm_ID c \<noteq> 9"
    by (simp add: scenario_store_def)
  have ex: "list_ex (\<lambda>ls. lsm_ID ls = 1) (livestreams scenario_store)"
    and nex: "\<not> list_ex (\<lambda>ls. lsm_ID ls = 9) (livestreams scenario_store)"
    by (simp_all add: scenario_store_def)
  note t1 = report_missing_comment_not_found[where ?sha256.0 = example_digest
      and fallback = example_fallback,
      OF session_of_ok(1)[of 2] atoi_examples(1) atoi_examples(6) no refl]
  note t2 = report_missing_comment_not_found[where ?sha256.0 = example_digest
      and fallback = example_fallback,
      OF session_of_ok(1)[of 2] atoi_examples(6) atoi_examples(6) no refl]
  have r1: "reportLivecommentHandler example_digest example_fallback 1000 (session_of 2) ''1''
        ''9'' scenario_store =
      (Inl (HTTPError StatusNotFound LivecommentNotFound), scenario_store)"
    using t1 ex by (simp add: prod_eq_iff)
  have r2: "reportLivecommentHandler example_digest example_fallback 1000 (session_of 2) ''9''
        ''9'' scenario_store =
      (Inl (HTTPError StatusNotFound LivestreamNotFound), scenario_store)"
    using t2 nex by (simp add: prod_eq_iff)
  show ?thesis
    using session_of_ok(1)[of 2] atoi_examples(1,6) r1 r2 by simp
qed

text \<open>
  User 2 reports comment 4, which belongs to stream 2, under stream 1: the report is
  stored with stream id 1.
\<close>

theorem report_accepts_comment_of_any_stream_witness:
  "verifyUserSession 1000 (session_of 2) = None
   \<and> Atoi ''1'' = Some 1
   \<and> Atoi ''4'' = Some 4
   \<and> map lcm_LivestreamID (filter (\<lambda>c. lcm_ID c = 4) (livecomments scenario_store)) = [2]
   \<and> \<not> isl (fst (reportLivecommentHandler example_digest example_fallback 1000 (session_of 2)
        ''1'' ''4'' scenario_store))
   \<and> map (\<lambda>lr. (lrm_LivestreamID lr, lrm_LivecommentID lr))
        (livecomment_reports (snd (reportLivecommentHandler example_digest example_fallback 1000
           (session_of 2) ''1'' ''4'' scenario_store))) = [(1, 4)]"
proof -
  let ?c = "\<lparr>lcm_ID = 4, lcm_UserID = 1, lcm_LivestreamID = 2, lcm_Comment = ''banana split'',
          lcm_Tip = 0, lcm_CreatedAt = 102\<rparr>"
  have a4: "Atoi ''4'' = Some 4"
    by (simp add: Atoi_def is_digit_def digits_value_def)
  have h5: "\<exists>ls \<in> set (livestreams scenario_store). lsm_ID ls = 1"
    and h6: "find (\<lambda>lc. lcm_ID lc = 4) (livecomments scenario_store) = Some ?c"
    and h7: "\<forall>lr \<in> set (livecomment_reports scenario_store).
               lrm_ID lr \<noteq> livecomment_reports_auto scenario_store"
    and h8: "\<exists>u \<in> set (users scenario_store). um_ID u = 2"
    and h9: "\<exists>t \<in> set (themes scenario_store). tm_UserID t = 2"
    and h10: "\<exists>u \<in> set (users scenario_store). um_ID u = lcm_UserID ?c"
    and h11: "\<exists>t \<in> set (themes scenario_store). tm_UserID t = lcm_UserID ?c"
    and h12: "\<exists>ls \<in> set (livestreams scenario_store). lsm_ID ls = lcm_LivestreamID ?c"
    and h13: "example_fallback \<noteq> None"
    by (simp_all add: scenario_store_def example_fallback_def)
  obtain report where r:
    "reportLivecommentHandler example_digest example_fallback 1000 (session_of 2) ''1'' ''4''
       scenario_store =
     (Inr report,
      scenario_store\<lparr>livecomment_reports := livecomment_reports scenario_store @
               [\<lparr>lrm_ID = livecomment_reports_auto scenario_store, lrm_UserID = 2,
                 lrm_LivestreamID = 1, lrm_LivecommentID = 4, lrm_CreatedAt = 1000\<rparr>],
            livecomment_reports_auto := livecomment_reports_auto scenario_store + 1\<rparr>)"
    using report_accepts_comment_of_any_stream[where ?sha256.0 = example_digest,
        OF session_of_ok(1)[of 2] atoi_examples(1) a4 session_of_ok(2)[of 2]
          h5 h6 h7 h8 h9 h10 h11 h12 h13]
    by blast
  have s: "map lcm_LivestreamID (filter (\<lambda>c. lcm_ID c = 4) (livecomments scenario_store)) = [2]"
    by (simp add: scenario_store_def)
  have e: "livecomment_reports scenario_store = []" by (simp add: scenario_store_def)
  show ?thesis
    unfolding r using session_of_ok(1)[of 2] atoi_examples(1) a4 s e by simp
qed

subsection \<open>The icon hash of a profile\<close>

text \<open>
  Claim C9, evaluated where the code departs from it. When the \<^verbatim>\<open>icons\<close> row of user 2
  holds an empty image, \<^verbatim>\<open>fillUserResponse\<close> hashes the empty bytes, while
  \<^verbatim>\<open>fetchUserDetailsByName\<close> tests the length and hashes the fallback image, as
  \<^verbatim>\<open>fillLivecommentResponse\<close> and \<^verbatim>\<open>fillLivecommentReportResponse\<close> do for every row
  whose image is empty. And when user 2 has no icon at all,
  \<^verbatim>\<open>fillUserResponseForRegisterHandler\<close> hashes the empty bytes that \<^verbatim>\<open>COALESCE\<close>
  yields, while \<^verbatim>\<open>fetchUserDetailsByName\<close> hashes the fallback image.
\<close>

theorem icon_hash_paths_diverge:
  "u_IconHash (projr (fillUserResponse sha256 example_fallback
       (scenario_store\<lparr>icons := [\<lparr>ic_ID = 1, ic_UserID = 2, ic_Image = []\<rparr>]\<rparr>)
       (users scenario_store ! 1))) = sprintf_x (sha256 [])
   \<and> u_IconHash (projr (fetchUserDetailsByName sha256 example_fallback
       (scenario_store\<lparr>icons := [\<lparr>ic_ID = 1, ic_UserID = 2, ic_Image = []\<rparr>]\<rparr>) ''viewer'')) =
     sprintf_x (sha256 [0xFF, 0xD8, 0xFF])
   \<and> u_IconHash (lc_User (projr (fillLivecommentResponse sha256 example_fallback
       (livecommentResponse\<lparr>lcr_UserImage := []\<rparr>)))) = sprintf_x (sha256 [0xFF, 0xD8, 0xFF])
   \<and> u_IconHash (lr_Reporter (projr (fillLivecommentReportResponse sha256 example_fallback
       (reportResponse\<lparr>lrr_ReporterImage := [], lrr_LCUserImage := []\<rparr>)))) =
     sprintf_x (sha256 [0xFF, 0xD8, 0xFF])
   \<and> u_IconHash (lc_User (lr_Livecomment (projr (fillLivecommentReportResponse sha256
       example_fallback
       (reportResponse\<lparr>lrr_ReporterImage := [], lrr_LCUserImage := []\<rparr>))))) =
     sprintf_x (sha256 [0xFF, 0xD8, 0xFF])
   \<and> u_IconHash (projr (fillUserResponseForRegisterHandler sha256 example_fallback
       scenario_store (users scenario_store ! 1))) = sprintf_x (sha256 [])
   \<and> u_IconHash (projr (fetchUserDetailsByName sha256 example_fallback scenario_store
       ''viewer'')) = sprintf_x (sha256 [0xFF, 0xD8, 0xFF])"
  by (simp add: fillUserResponse_def fetchUserDetailsByName_def
        fillUserResponseForRegisterHandler_def fillLivecommentResponse_def
        fillLivecommentReportResponse_def get_row_def left_join_def coalesce_image_def
        readFallback_def example_fallback_def scenario_store_def Let_def)

end
